theory Spec2Isabelle
  imports Main "HOL-Library.Word"
begin

section \<open>JavaScript values\<close>

text \<open>
  The router (lib/latest/MQRouter.js) is dynamically typed. The values that reach the
  branches of the code are modelled by one datatype. A Number held in a value (a ttl) is a
  whole number below \<open>2 ^ 53\<close> in magnitude, where doubles are exact; the arithmetic on
  the clock, which goes beyond that, is modelled with its rounding further down. A Buffer
  is its list of bytes.
\<close>

datatype jsval =
    JUndefined
  | JNull
  | JBool bool
  | JNumber int
  | JString string
  | JBuffer string

text \<open>ToBoolean: what \<open>a && b\<close>, \<open>a || b\<close> and \<open>if (a)\<close> test.\<close>

fun truthy :: "jsval \<Rightarrow> bool" where
  "truthy JUndefined = False"
| "truthy JNull = False"
| "truthy (JBool b) = b"
| "truthy (JNumber n) = (n \<noteq> 0)"
| "truthy (JString s) = (s \<noteq> [])"
| "truthy (JBuffer b) = True"

text \<open>
  The \<open>length\<close> property of a truthy value (reading it from \<open>undefined\<close> or \<open>null\<close>
  raises, but the code reads it behind \<open>queue &&\<close> only).
\<close>

fun js_length :: "jsval \<Rightarrow> jsval" where
  "js_length (JString s) = JNumber (int (length s))"
| "js_length (JBuffer b) = JNumber (int (length b))"
| "js_length v = JUndefined"

text \<open>A parameter default \<open>p = d\<close> applies exactly when the argument is \<open>undefined\<close>.\<close>

definition param_default :: "jsval \<Rightarrow> jsval \<Rightarrow> jsval" where
  "param_default v d = (if v = JUndefined then d else v)"

section \<open>Errors\<close>

text \<open>
  Modelled from the spec: the class \<open>IError\<close> of ./Helpers is not among the sources. Per
  the specification an error carries the originating operation's identity and the wrapped
  cause; the router passes them to the constructor as one object \<open>{ name, source, cause }\<close>.
  An instance is represented by the list of arguments its constructor was given, each such
  an object (name, source, optional cause): what the instance can carry is what is in that
  list.

  Of the other errors, \<open>TypeError\<close> is raised by the JavaScript runtime, \<open>Failure\<close> is an
  error of an external collaborator (connector, serializer, handler), and the three table
  errors are those the specification gives the routing tables.
\<close>

datatype error =
    TypeError
  | Failure string
  | HandlerNotFoundError
  | UnknownIndexError
  | DuplicateIdError
  | IError "(string \<times> string \<times> error option) list"

type_synonym ierror_arg = "string \<times> string \<times> error option"

text \<open>
  \<open>Reflect.construct(target, argumentsList)\<close> turns its second argument into the list of
  constructor arguments with CreateListFromArrayLike, which reads the \<open>length\<close> property:
  an array gives its elements, an object literal without \<open>length\<close> gives the empty list.
\<close>

datatype 'a arguments_list =
    ArrayLiteral "'a list"
  | ObjectLiteral 'a

fun CreateListFromArrayLike :: "'a arguments_list \<Rightarrow> 'a list" where
  "CreateListFromArrayLike (ArrayLiteral xs) = xs"
| "CreateListFromArrayLike (ObjectLiteral x) = []"

definition Reflect_construct_IError :: "ierror_arg arguments_list \<Rightarrow> error" where
  "Reflect_construct_IError args = IError (CreateListFromArrayLike args)"

text \<open>
  Modelled from the spec: \<open>IError\<close> is a class, and calling a class without \<open>new\<close>, as
  \<open>IError({...})\<close> does, raises a TypeError.
\<close>

definition call_IError :: "ierror_arg \<Rightarrow> error + jsval" where
  "call_IError a = Inl TypeError"

text \<open>
  \<open>Reflect.construct(v)\<close> with no argument list: whatever \<open>v\<close> is, the missing list is
  \<open>undefined\<close>, which is not an object, and a TypeError is raised.
\<close>

definition Reflect_construct_no_list :: "jsval \<Rightarrow> error" where
  "Reflect_construct_no_list v = TypeError"

section \<open>The clock and message ids\<close>

text \<open>
  The monotonic clock of the runtime counts nanoseconds in an unsigned 64-bit integer.
  \<open>process.hrtime()\<close> presents a reading as the array [seconds, nanoseconds]. With an
  argument, \<open>process.hrtime(time)\<close> returns the difference of the present reading to the
  earlier array, borrowing one second when the nanoseconds would be negative. Seconds and
  nanoseconds of a 64-bit reading are below \<open>2 ^ 35\<close>, so this arithmetic is exact.
\<close>

type_synonym clock = "64 word"

type_synonym hrtime = "int \<times> int"

definition hrtime_of :: "clock \<Rightarrow> hrtime" where
  "hrtime_of t = (int (unat t div 1000000000), int (unat t mod 1000000000))"

definition process_hrtime :: "clock \<Rightarrow> hrtime \<Rightarrow> hrtime" where
  "process_hrtime now time =
     (let sec = fst (hrtime_of now) - fst time; nsec = snd (hrtime_of now) - snd time
      in if nsec < 0 then (sec - 1, nsec + 1000000000) else (sec, nsec))"

text \<open>Modelled from the spec: the constants of ./Helpers are not among the sources.\<close>

definition MS_FACTOR :: int where
  "MS_FACTOR = 1000"

definition NS_FACTOR :: int where
  "NS_FACTOR = 1000000000"

subsection \<open>Number arithmetic\<close>

text \<open>
  A Number is an IEEE 754 double. \<open>getMessageId\<close> multiplies and adds whole numbers; the
  result of such an operation is the exact result rounded to the nearest double, a tie
  going to the even significand. A whole number below \<open>2 ^ 53\<close> is a double; a larger one
  keeps its 53 leading bits. (From \<open>2 ^ 1024\<close> on the result is Infinity; the operands here
  come from a 64-bit clock and the results stay below \<open>2 ^ 65\<close>.)
\<close>

fun bit_length :: "nat \<Rightarrow> nat" where
  "bit_length n = (if n = 0 then 0 else Suc (bit_length (n div 2)))"

declare bit_length.simps [simp del]

definition round_to_double :: "nat \<Rightarrow> nat" where
  "round_to_double n =
     (if n < 2 ^ 53 then n
      else (let e = bit_length n - 53; q = n div 2 ^ e; r = n mod 2 ^ e; half = 2 ^ (e - 1)
            in (if half < r \<or> (r = half \<and> odd q) then q + 1 else q) * 2 ^ e))"

definition Number_of :: "int \<Rightarrow> int" where
  "Number_of i = (if i < 0 then - int (round_to_double (nat (- i))) else int (round_to_double (nat i)))"

definition Number_times :: "int \<Rightarrow> int \<Rightarrow> int" where
  "Number_times a b = Number_of (a * b)"

definition Number_plus :: "int \<Rightarrow> int \<Rightarrow> int" where
  "Number_plus a b = Number_of (a + b)"

subsection \<open>Number to String\<close>

text \<open>
  Inside a template literal a Number is printed by Number::toString. For a positive whole
  double \<open>x\<close> it takes the least \<open>k\<close> for which some \<open>s\<close> of \<open>k\<close> decimal digits and
  some \<open>n\<close> have \<open>s * 10 ^ (n - k)\<close> round to \<open>x\<close> (of several such \<open>s\<close>, the one
  closest to \<open>x\<close>, the even one on a tie). Up to \<open>n = 21\<close> it prints the digits of \<open>s\<close>
  followed by \<open>n - k\<close> zeros, beyond that the exponent form. Below \<open>2 ^ 53\<close> every whole number is
  a double of its own, and what is printed is its decimal digits.
\<close>

definition digit_char :: "nat \<Rightarrow> char" where
  "digit_char d = ''0123456789'' ! d"

fun digits :: "nat \<Rightarrow> string" where
  "digits n = (if n < 10 then [digit_char n] else digits (n div 10) @ [digit_char (n mod 10)])"

declare digits.simps [simp del]

text \<open>
  The pairs \<open>(n, s)\<close> with \<open>s\<close> of \<open>k\<close> digits whose value rounds to \<open>x\<close>: \<open>n\<close> is the
  number of digits of \<open>x\<close> or one more, and \<open>s * 10 ^ (n - k)\<close> is one of the two
  multiples of \<open>10 ^ (n - k)\<close> around \<open>x\<close>.
\<close>

definition representations :: "nat \<Rightarrow> nat \<Rightarrow> (nat \<times> nat) list" where
  "representations x k =
     concat (map (\<lambda>n. map (\<lambda>s. (n, s))
                          (filter (\<lambda>s. 10 ^ (k - 1) \<le> s \<and> s < 10 ^ k \<and>
                                        round_to_double (s * 10 ^ (n - k)) = x)
                             [x div 10 ^ (n - k), Suc (x div 10 ^ (n - k))]))
                 [length (digits x), Suc (length (digits x))])"

definition distance :: "nat \<Rightarrow> nat \<Rightarrow> nat \<times> nat \<Rightarrow> nat" where
  "distance x k c = (case c of (n, s) \<Rightarrow> nat \<bar>int (s * 10 ^ (n - k)) - int x\<bar>)"

fun closest :: "nat \<Rightarrow> nat \<Rightarrow> nat \<times> nat \<Rightarrow> (nat \<times> nat) list \<Rightarrow> nat \<times> nat" where
  "closest x k best [] = best"
| "closest x k best (c # cs) =
     closest x k
       (if distance x k c < distance x k best \<or>
           (distance x k c = distance x k best \<and> even (snd c)) then c else best) cs"

text \<open>
  The triple \<open>(n, k, s)\<close> of Number::toString. With \<open>k\<close> the number of digits of \<open>x\<close>,
  \<open>x\<close> itself is a representation of a double \<open>x\<close>, so the search finds one.
\<close>

definition shortest_representation :: "nat \<Rightarrow> nat \<times> nat \<times> nat" where
  "shortest_representation x =
     (case find (\<lambda>k. representations x k \<noteq> []) [1..<Suc (length (digits x))] of
        None \<Rightarrow> (length (digits x), length (digits x), x)
      | Some k \<Rightarrow>
          (case closest x k (hd (representations x k)) (tl (representations x k)) of
             (n, s) \<Rightarrow> (n, k, s)))"

definition positive_toString :: "nat \<Rightarrow> string" where
  "positive_toString x =
     (if x < 2 ^ 53 then digits x
      else (case shortest_representation x of
              (n, k, s) \<Rightarrow>
                if n \<le> 21 then digits s @ replicate (n - k) (CHR ''0'')
                else if k = 1 then digits s @ ''e+'' @ digits (n - 1)
                else hd (digits s) # CHR ''.'' # tl (digits s) @ ''e+'' @ digits (n - 1)))"

definition Number_toString :: "int \<Rightarrow> string" where
  "Number_toString i =
     (if i < 0 then CHR ''-'' # positive_toString (nat (- i)) else positive_toString (nat i))"

section \<open>Envelopes and destinations\<close>

text \<open>
  A destination is an object with the properties \<open>queue\<close> and \<open>exchange\<close>; a property
  that is absent reads as \<open>undefined\<close>, so \<open>{}\<close> is the destination with both undefined.
\<close>

record destination =
  d_queue :: jsval
  d_exchange :: jsval

definition empty_object :: destination where
  "empty_object = \<lparr>d_queue = JUndefined, d_exchange = JUndefined\<rparr>"

text \<open>
  The envelope that \<open>buildRequest\<close> hands to \<open>mqStructure\<close>: id, replyTo, replyOn, from,
  to, message. The builder itself is an external package; it is modelled as the record
  of the six properties it is given.
\<close>

record envelope =
  m_id :: string
  m_replyTo :: string
  m_replyOn :: destination
  m_from :: string
  m_to :: string
  m_message :: jsval

text \<open>
  Reading a property of an envelope by its name: the six properties the envelope was built
  with (\<open>replyOn\<close>, an object, is read through \<open>m_replyOn\<close>), and \<open>undefined\<close> for
  any other name. \<open>ownHandler\<close> reads \<open>message.replyId\<close>.
\<close>

definition property :: "envelope \<Rightarrow> string \<Rightarrow> jsval" where
  "property m p =
     (if p = ''id'' then JString (m_id m)
      else if p = ''replyTo'' then JString (m_replyTo m)
      else if p = ''from'' then JString (m_from m)
      else if p = ''to'' then JString (m_to m)
      else if p = ''message'' then m_message m
      else JUndefined)"

definition m_replyId :: "envelope \<Rightarrow> jsval" where
  "m_replyId m = property m ''replyId''"

text \<open>The serialized form of an envelope, as the connector carries it.\<close>

datatype wire = Wire envelope

text \<open>What a handler is applied to, and what its promise resolves to.\<close>

record delivery =
  dl_message :: envelope
  dl_queue :: jsval
  dl_topic :: jsval
  dl_exchange :: jsval
  dl_consumerTag :: string

text \<open>
  A handler resolves to an object whose \<open>message\<close> property is the response payload
  (\<open>HObject\<close>), or to \<open>undefined\<close>/\<open>null\<close> (\<open>HNothing\<close>), or it fails.
\<close>

datatype hresult = HNothing | HObject jsval

text \<open>
  A registered handler is the router's own \<open>ownHandler\<close> or a function of the
  application, which is given the list of its arguments.
\<close>

datatype handler =
    OwnHandler
  | UserHandler "delivery list \<Rightarrow> error + hresult"

text \<open>What \<open>ownHandler\<close> passes on: \<open>{ message, queue, topic, exchange }\<close>.\<close>

record reply =
  rp_message :: jsval
  rp_queue :: jsval
  rp_topic :: jsval
  rp_exchange :: jsval

section \<open>The request correlation table\<close>

text \<open>
  Modelled from the spec: the class MQRequestsRoutingTable is not among the sources. Per
  the specification (4.2) the state maps an id to its pending request (here: to the ttl it
  was registered with); \<open>register\<close> fails with DuplicateIdError on a present id;
  \<open>callById\<close> settles and removes a present id with the message and is a no-op on an
  absent one; \<open>unregister\<close> settles a present id with a rejection carrying the error and
  removes it. The settlements are kept in a log, oldest first.
\<close>

datatype settlement = Resolved reply | Rejected error

record requests_table =
  pending :: "string \<rightharpoonup> jsval"
  settled :: "(string \<times> settlement) list"

definition requests_register :: "string \<Rightarrow> jsval \<Rightarrow> requests_table \<Rightarrow> error + requests_table" where
  "requests_register i ttl t =
     (case pending t i of
        Some x \<Rightarrow> Inl DuplicateIdError
      | None \<Rightarrow> Inr (t\<lparr>pending := (pending t)(i \<mapsto> ttl)\<rparr>))"

definition requests_settle :: "jsval \<Rightarrow> settlement \<Rightarrow> requests_table \<Rightarrow> requests_table" where
  "requests_settle i how t =
     (case i of
        JString k \<Rightarrow>
          (case pending t k of
             None \<Rightarrow> t
           | Some x \<Rightarrow> t\<lparr>pending := (pending t)(k := None), settled := settled t @ [(k, how)]\<rparr>)
      | _ \<Rightarrow> t)"

definition requests_callById :: "jsval \<Rightarrow> reply \<Rightarrow> requests_table \<Rightarrow> requests_table" where
  "requests_callById i msg t = requests_settle i (Resolved msg) t"

definition requests_unregister :: "string \<Rightarrow> error \<Rightarrow> requests_table \<Rightarrow> requests_table" where
  "requests_unregister i e t = requests_settle (JString i) (Rejected e) t"

section \<open>The queue routing table\<close>

text \<open>
  Modelled from the spec: the class MQQueuesRoutingTable is not among the sources. Per the
  specification (4.3) it is an ordered collection of registrations addressed by index and,
  once set, by consumer tag; \<open>register\<close> allocates a new index; \<open>update\<close> fails with
  UnknownIndexError on a removed index; \<open>getHandlerByConsumerTag\<close> fails with
  HandlerNotFoundError when no registration matches.
\<close>

record registration =
  reg_handler :: handler
  reg_queue :: jsval
  reg_topic :: jsval
  reg_exchange :: jsval
  reg_consumerTag :: "string option"

record queues_table =
  entries :: "(nat \<times> registration) list"
  next_index :: nat

definition queues_register ::
  "handler \<Rightarrow> jsval \<Rightarrow> jsval \<Rightarrow> jsval \<Rightarrow> queues_table \<Rightarrow> nat \<times> queues_table" where
  "queues_register h q tp ex t =
     (next_index t,
      t\<lparr>entries := entries t @
           [(next_index t,
             \<lparr>reg_handler = h, reg_queue = q, reg_topic = tp, reg_exchange = ex,
              reg_consumerTag = None\<rparr>)],
        next_index := Suc (next_index t)\<rparr>)"

definition queues_update ::
  "nat \<Rightarrow> jsval \<Rightarrow> string \<Rightarrow> queues_table \<Rightarrow> error + queues_table" where
  "queues_update i q tag t =
     (if i \<in> fst ` set (entries t)
      then Inr (t\<lparr>entries :=
                  map (\<lambda>(j, r). if j = i then (j, r\<lparr>reg_queue := q, reg_consumerTag := Some tag\<rparr>)
                                 else (j, r)) (entries t)\<rparr>)
      else Inl UnknownIndexError)"

text \<open>The index is \<open>null\<close> (None) when the registration itself had failed.\<close>

definition queues_unregister :: "nat option \<Rightarrow> queues_table \<Rightarrow> queues_table" where
  "queues_unregister i t =
     (case i of
        None \<Rightarrow> t
      | Some k \<Rightarrow> t\<lparr>entries := filter (\<lambda>(j, r). j \<noteq> k) (entries t)\<rparr>)"

definition queues_getHandlerByConsumerTag :: "string \<Rightarrow> queues_table \<Rightarrow> error + handler" where
  "queues_getHandlerByConsumerTag tag t =
     (case find (\<lambda>(j, r). reg_consumerTag r = Some tag) (entries t) of
        None \<Rightarrow> Inl HandlerNotFoundError
      | Some (j, r) \<Rightarrow> Inr (reg_handler r))"

section \<open>The router\<close>

text \<open>
  The collaborators injected into the constructor, as functions of the arguments of one
  call: the connector's \<open>sendMessage\<close> (None: accepted) and \<open>subscribe\<close> (the confirmed
  queue and the consumer tag), and the serializer.
\<close>

record env =
  connector_sendMessage :: "destination \<Rightarrow> wire \<Rightarrow> jsval \<Rightarrow> error option"
  connector_subscribe :: "jsval \<Rightarrow> jsval \<Rightarrow> jsval \<Rightarrow> error + (jsval \<times> string)"
  serializer_serialize :: "envelope \<Rightarrow> error + wire"

text \<open>
  The calls that leave the router are logged, oldest first: the connector's subscribe and
  sendMessage with their arguments, the error collector, the handlers, the calls on the
  correlation table and the \<open>selfSubscribed\<close> notification of the event bus.
\<close>

datatype event =
    ConnectorSubscribe jsval jsval jsval
  | ConnectorSendMessage destination wire jsval
  | ErrorCollector error
  | HandlerApplied nat
  | DefaultHandlerApplied nat
  | RequestsRegister string jsval
  | RequestsUnregister string error
  | RequestsCallById jsval reply
  | EmitSelfSubscribed "error option"

record identification =
  startTime :: clock
  listen_queue :: jsval
  listen_topic :: jsval
  listen_exchange :: jsval
  subscribed :: bool
  subscribing :: bool
  name :: string

text \<open>
  \<open>startTime\<close> is the reading of the clock at construction, which the router keeps as
  the array \<open>process.hrtime()\<close> made of it (\<open>hrtime_of\<close>).
\<close>

text \<open>
  \<open>errorCollector\<close> is whether the configured collector is a function;
  \<open>selfSubscribed_listeners\<close> counts the one-shot listeners waiting on the event bus.
\<close>

record router =
  sourceIdentifier :: string
  requestsRoutingTable :: requests_table
  queuesRoutingTable :: queues_table
  defaultTTL :: int
  defaultHandler :: "(reply list \<Rightarrow> error + hresult) option"
  identification :: identification
  returnDestination :: destination
  errorCollector :: bool
  selfSubscribed_listeners :: nat
  trace :: "event list"

text \<open>The constructor; \<open>ttl\<close> is None when \<open>defaultTTL\<close> is not given (default 5).\<close>

definition constructor ::
  "string \<Rightarrow> jsval \<Rightarrow> jsval \<Rightarrow> jsval \<Rightarrow> bool \<Rightarrow> (reply list \<Rightarrow> error + hresult) option \<Rightarrow>
   int option \<Rightarrow> clock \<Rightarrow> router" where
  "constructor nm queue topic exchange collector handler ttl now =
     \<lparr>sourceIdentifier = nm @ ''.MQRouter'',
      requestsRoutingTable = \<lparr>pending = Map.empty, settled = []\<rparr>,
      queuesRoutingTable = \<lparr>entries = [], next_index = 0\<rparr>,
      defaultTTL = (case ttl of None \<Rightarrow> 5 | Some n \<Rightarrow> n) * MS_FACTOR,
      defaultHandler = handler,
      identification =
        \<lparr>startTime = now, listen_queue = queue, listen_topic = topic,
         listen_exchange = exchange, subscribed = False, subscribing = False, name = nm\<rparr>,
      returnDestination = \<lparr>d_queue = JNull, d_exchange = exchange\<rparr>,
      errorCollector = collector,
      selfSubscribed_listeners = 0,
      trace = []\<rparr>"

definition log_event :: "event \<Rightarrow> router \<Rightarrow> router" where
  "log_event e r = r\<lparr>trace := trace r @ [e]\<rparr>"

text \<open>\<open>mqrEvents.emit('error', payload)\<close>: the listener of the constructor calls the collector.\<close>

definition emit_error :: "error \<Rightarrow> router \<Rightarrow> router" where
  "emit_error e r = (if errorCollector r then log_event (ErrorCollector e) r else r)"

text \<open>\<open>mqrEvents.emit('selfSubscribed', { error })\<close>: every one-shot listener runs and is removed.\<close>

definition emit_selfSubscribed :: "error option \<Rightarrow> router \<Rightarrow> router" where
  "emit_selfSubscribed e r = log_event (EmitSelfSubscribed e) (r\<lparr>selfSubscribed_listeners := 0\<rparr>)"

subsection \<open>validateDestination, getMessageId, buildRequest\<close>

text \<open>
  The destination is None when the argument is \<open>undefined\<close>: destructuring it raises. The
  failure branch is \<open>throw Reflect.construct(IError({...}))\<close>: the class is called as a
  function and \<open>Reflect.construct\<close> gets no argument list.
\<close>

definition validateDestination :: "router \<Rightarrow> destination option \<Rightarrow> error + bool" where
  "validateDestination r destination =
     (case destination of
        None \<Rightarrow> Inl TypeError
      | Some d \<Rightarrow>
          (let queue = d_queue d
           in if truthy queue \<and> js_length queue \<noteq> JNumber 0 then Inr True
              else (case call_IError (''MQ_ROUTER_VALIDATE_DESTINATION'',
                                      sourceIdentifier r @ ''.validateDestination'', None) of
                      Inl e \<Rightarrow> Inl e
                    | Inr v \<Rightarrow> Inl (Reflect_construct_no_list v))))"

definition getMessageId :: "router \<Rightarrow> clock \<Rightarrow> string" where
  "getMessageId r now =
     (let diff = process_hrtime now (hrtime_of (startTime (identification r)))
      in name (identification r) @ ''.'' @
         Number_toString (Number_plus (Number_times (fst diff) NS_FACTOR) (snd diff)))"

fun is_Buffer :: "jsval \<Rightarrow> bool" where
  "is_Buffer (JBuffer b) = True"
| "is_Buffer v = False"

definition buildRequest ::
  "env \<Rightarrow> router \<Rightarrow> clock \<Rightarrow> jsval \<Rightarrow> string \<Rightarrow> string \<Rightarrow> error + (wire \<times> string)" where
  "buildRequest ev r now message replyId to =
     (if \<not> is_Buffer message
      then Inl (Reflect_construct_IError
                  (ObjectLiteral (''MQ_ROUTER_BUILD_REQUEST_NO_BUFFER'',
                                  sourceIdentifier r @ ''.buildRequest'', None)))
      else (let m = \<lparr>m_id = getMessageId r now, m_replyTo = replyId,
                      m_replyOn = returnDestination r, m_from = name (identification r),
                      m_to = to, m_message = message\<rparr>
            in case serializer_serialize ev m of
                 Inl e \<Rightarrow> Inl e
               | Inr serializedMessage \<Rightarrow> Inr (serializedMessage, m_id m)))"

subsection \<open>sendMQMsg, sendMessage, respondToRequest\<close>

text \<open>
  What \<open>sendMQMsg\<close> returns: \<open>true\<close>, or the future that \<open>register\<close> returned for the id.
\<close>

datatype response = RTrue | RFuture string

text \<open>
  \<open>sendMQMsg({ message, destination, options = {}, isRequest = false })\<close>. \<open>ttl\<close> is
  \<open>options.ttl\<close> (\<open>undefined\<close> when absent). The parameter pattern has no \<open>replyId\<close>, and
  \<open>buildRequest\<close> is called with the message and the destination only, so its \<open>replyId\<close>
  and \<open>to\<close> take their defaults, the empty string.
\<close>

definition sendMQMsg ::
  "env \<Rightarrow> clock \<Rightarrow> jsval \<Rightarrow> destination option \<Rightarrow> jsval \<Rightarrow> bool \<Rightarrow> router \<Rightarrow>
   (error + response) \<times> router" where
  "sendMQMsg ev now message destination ttl isRequest r =
     (case validateDestination r destination of
        Inl e \<Rightarrow> (Inl e, r)
      | Inr ok \<Rightarrow>
     (case destination of
        None \<Rightarrow> (Inl TypeError, r)
      | Some d \<Rightarrow>
     (case buildRequest ev r now message [] [] of
        Inl e \<Rightarrow> (Inl e, r)
      | Inr (serializedMessage, i) \<Rightarrow>
     (let lOptions = (if truthy ttl then ttl else JNumber (defaultTTL r))
      in case (if isRequest
               then (case requests_register i lOptions (requestsRoutingTable r) of
                       Inl e \<Rightarrow> Inl e
                     | Inr t \<Rightarrow> Inr (RFuture i,
                                     log_event (RequestsRegister i lOptions) (r\<lparr>requestsRoutingTable := t\<rparr>)))
               else Inr (RTrue, r)) of
           Inl e \<Rightarrow> (Inl e, r)
         | Inr (response, r1) \<Rightarrow>
        (let r2 = log_event (ConnectorSendMessage d serializedMessage lOptions) r1
         in case connector_sendMessage ev d serializedMessage lOptions of
              None \<Rightarrow> (Inr response, r2)
            | Some err \<Rightarrow>
                if response = RTrue then (Inl err, r2)
                else (Inr response,
                      log_event (RequestsUnregister i err)
                        (r2\<lparr>requestsRoutingTable :=
                              requests_unregister i err (requestsRoutingTable r2)\<rparr>)))))))"

text \<open>
  \<open>sendMessage\<close> returns the promise of \<open>sendMQMsg\<close> without awaiting it, so its
  \<open>catch\<close> never sees a rejection of that promise: the outcome is that of \<open>sendMQMsg\<close>.
\<close>

definition sendMessage ::
  "env \<Rightarrow> clock \<Rightarrow> jsval \<Rightarrow> destination option \<Rightarrow> jsval \<Rightarrow> router \<Rightarrow>
   (error + response) \<times> router" where
  "sendMessage ev now message destination ttl r = sendMQMsg ev now message destination ttl False r"

text \<open>
  \<open>respondToRequest({ message, replyId, destination })\<close> passes \<open>replyId\<close> on to
  \<open>sendMQMsg\<close>, whose parameter pattern drops it; no options are passed.
\<close>

definition respondToRequest ::
  "env \<Rightarrow> clock \<Rightarrow> jsval \<Rightarrow> jsval \<Rightarrow> destination option \<Rightarrow> router \<Rightarrow>
   (error + response) \<times> router" where
  "respondToRequest ev now message replyId destination r =
     (if message = JNull then (Inr RTrue, r)
      else sendMQMsg ev now message destination JUndefined False r)"

subsection \<open>subscribe\<close>

text \<open>
  \<open>subscribe\<close> suspends once, at \<open>await this.connector.subscribe(...)\<close>. Up to there it
  runs without interruption (\<open>subscribe_begin\<close>: the parameter defaults, the provisional
  registration, the call on the connector); \<open>subscribe_resume\<close> is what it does with the
  connector's answer. The catch block builds its error with
  \<open>Reflect.construct(IError, {...})\<close>, an object literal in place of the argument list.
\<close>

definition subscribe_begin ::
  "handler \<Rightarrow> jsval \<Rightarrow> jsval \<Rightarrow> jsval \<Rightarrow> router \<Rightarrow> (nat \<times> jsval \<times> jsval \<times> jsval) \<times> router" where
  "subscribe_begin h queue topic exchange r =
     (let q = param_default queue (JString []);
          tp = param_default topic (JString []);
          ex = param_default exchange (JString [])
      in case queues_register h q tp ex (queuesRoutingTable r) of
           (index, t) \<Rightarrow>
             ((index, q, tp, ex),
              log_event (ConnectorSubscribe q tp ex) (r\<lparr>queuesRoutingTable := t\<rparr>)))"

definition subscribe_catch :: "nat \<Rightarrow> error \<Rightarrow> router \<Rightarrow> (error + 'a) \<times> router" where
  "subscribe_catch index cause r =
     (Inl (Reflect_construct_IError
             (ObjectLiteral (''MQ_ROUTER_SUBSCRIBE'', sourceIdentifier r @ ''.subscribe'', Some cause))),
      r\<lparr>queuesRoutingTable := queues_unregister (Some index) (queuesRoutingTable r)\<rparr>)"

definition subscribe_resume ::
  "nat \<Rightarrow> jsval \<Rightarrow> jsval \<Rightarrow> error + (jsval \<times> string) \<Rightarrow> router \<Rightarrow>
   (error + (jsval \<times> jsval \<times> jsval)) \<times> router" where
  "subscribe_resume index tp ex answer r =
     (case answer of
        Inl cause \<Rightarrow> subscribe_catch index cause r
      | Inr (registeredQueue, consumerTag) \<Rightarrow>
          (case queues_update index registeredQueue consumerTag (queuesRoutingTable r) of
             Inl cause \<Rightarrow> subscribe_catch index cause r
           | Inr t \<Rightarrow> (Inr (registeredQueue, tp, ex), r\<lparr>queuesRoutingTable := t\<rparr>)))"

definition subscribe ::
  "env \<Rightarrow> handler \<Rightarrow> jsval \<Rightarrow> jsval \<Rightarrow> jsval \<Rightarrow> router \<Rightarrow>
   (error + (jsval \<times> jsval \<times> jsval)) \<times> router" where
  "subscribe ev h queue topic exchange r =
     (case subscribe_begin h queue topic exchange r of
        ((index, q, tp, ex), r1) \<Rightarrow> subscribe_resume index tp ex (connector_subscribe ev q tp ex) r1)"

subsection \<open>The self-subscription bootstrap\<close>

text \<open>
  \<open>checkIfIsSelfSubscribedForResponses\<close> returns at once, or suspends on the one-shot
  \<open>selfSubscribed\<close> listener (\<open>waitForSelfSubscription\<close>), or suspends inside
  \<open>subscribe\<close>. Before it subscribes it assigns \<open>false\<close> to \<open>subscribing\<close>. It passes
  \<open>this.identification.queue\<close>, \<open>.topic\<close> and \<open>.exchange\<close>; the listen address is kept
  under \<open>this.identification.listen\<close>, so the three reads give \<open>undefined\<close>.
\<close>

datatype bootstrap =
    Returned bool
  | WaitingForSelfSubscription
  | Subscribing nat jsval jsval jsval

definition checkIfIsSelfSubscribedForResponses_begin :: "router \<Rightarrow> bootstrap \<times> router" where
  "checkIfIsSelfSubscribedForResponses_begin r =
     (if subscribed (identification r) then (Returned True, r)
      else if subscribing (identification r)
      then (WaitingForSelfSubscription,
            r\<lparr>selfSubscribed_listeners := Suc (selfSubscribed_listeners r)\<rparr>)
      else (case subscribe_begin OwnHandler JUndefined JUndefined JUndefined
                   (r\<lparr>identification := (identification r)\<lparr>subscribing := False\<rparr>\<rparr>) of
              ((index, q, tp, ex), r1) \<Rightarrow> (Subscribing index q tp ex, r1)))"

definition checkIfIsSelfSubscribedForResponses_resume ::
  "nat \<Rightarrow> jsval \<Rightarrow> jsval \<Rightarrow> error + (jsval \<times> string) \<Rightarrow> router \<Rightarrow> (error + bool) \<times> router" where
  "checkIfIsSelfSubscribedForResponses_resume index tp ex answer r =
     (case subscribe_resume index tp ex answer r of
        (Inr (queue, topic, exchange), r1) \<Rightarrow>
          (Inr True,
           emit_selfSubscribed None
             (r1\<lparr>returnDestination :=
                    (returnDestination r1)\<lparr>d_queue := (if topic = JString [] then queue else topic)\<rparr>,
                  identification := (identification r1)\<lparr>subscribing := False\<rparr>\<rparr>))
      | (Inl cause, r1) \<Rightarrow>
          (let err = Reflect_construct_IError
                       (ArrayLiteral [(''MQ_ROUTER_SELF_SUBSCRIBE'',
                          sourceIdentifier r1 @ ''.checkIfIsSelfSubscribedForResponses'', Some cause)])
           in (Inl err,
               emit_selfSubscribed (Some err)
                 (r1\<lparr>identification := (identification r1)\<lparr>subscribing := False\<rparr>\<rparr>))))"

text \<open>
  One call run alone, the connector answering before anything else happens. A call that
  waits for the notification is never resumed in such a run: the result is None.
\<close>

definition checkIfIsSelfSubscribedForResponses ::
  "env \<Rightarrow> router \<Rightarrow> (error + bool) option \<times> router" where
  "checkIfIsSelfSubscribedForResponses ev r =
     (case checkIfIsSelfSubscribedForResponses_begin r of
        (Returned b, r1) \<Rightarrow> (Some (Inr b), r1)
      | (WaitingForSelfSubscription, r1) \<Rightarrow> (None, r1)
      | (Subscribing index q tp ex, r1) \<Rightarrow>
          (case checkIfIsSelfSubscribedForResponses_resume index tp ex
                  (connector_subscribe ev q tp ex) r1 of
             (res, r2) \<Rightarrow> (Some res, r2)))"

text \<open>
  \<open>sendRequest\<close> awaits the bootstrap inside its \<open>try\<close> and wraps a failure of it; the
  promise of \<open>sendMQMsg\<close> is returned without \<open>await\<close>, so its outcome is passed on as
  it is.
\<close>

definition sendRequest ::
  "env \<Rightarrow> clock \<Rightarrow> jsval \<Rightarrow> destination option \<Rightarrow> jsval \<Rightarrow> router \<Rightarrow>
   (error + response) option \<times> router" where
  "sendRequest ev now message destination ttl r =
     (case checkIfIsSelfSubscribedForResponses ev r of
        (None, r1) \<Rightarrow> (None, r1)
      | (Some (Inl cause), r1) \<Rightarrow>
          (Some (Inl (Reflect_construct_IError
                        (ArrayLiteral [(''MQ_ROUTER_SEND_REQUEST_ERROR'',
                                        sourceIdentifier r1 @ ''.sendRequest'', Some cause)]))), r1)
      | (Some (Inr ok), r1) \<Rightarrow>
          (case sendMQMsg ev now message destination ttl True r1 of
             (res, r2) \<Rightarrow> (Some res, r2)))"

text \<open>
  Calls of \<open>sendRequest\<close> that arrive while no subscribe has completed: each runs to its
  first suspension, which is that of the bootstrap, before the next one starts.
\<close>

fun arrivals :: "nat \<Rightarrow> router \<Rightarrow> router" where
  "arrivals 0 r = r"
| "arrivals (Suc n) r = arrivals n (snd (checkIfIsSelfSubscribedForResponses_begin r))"

fun is_ConnectorSubscribe :: "event \<Rightarrow> bool" where
  "is_ConnectorSubscribe (ConnectorSubscribe q tp ex) = True"
| "is_ConnectorSubscribe e = False"

definition subscribe_calls :: "router \<Rightarrow> nat" where
  "subscribe_calls r = length (filter is_ConnectorSubscribe (trace r))"

subsection \<open>routeMessage, ownHandler, defaultMessageConsumer\<close>

text \<open>
  \<open>handler.apply(handler, {...})\<close> passes an object literal where \<open>apply\<close> expects the
  list of arguments: the handler is applied to \<open>CreateListFromArrayLike\<close> of it. The
  router's own handler, applied this way, has neither an argument to destructure nor the
  router as \<open>this\<close>, and raises a TypeError.
\<close>

fun apply_handler :: "handler \<Rightarrow> delivery list \<Rightarrow> error + hresult" where
  "apply_handler OwnHandler args = Inl TypeError"
| "apply_handler (UserHandler f) args = f args"

text \<open>Destructuring \<open>{ message: responseMessage }\<close> from what the handler resolved to.\<close>

fun responseMessage_of :: "error + hresult \<Rightarrow> error + jsval" where
  "responseMessage_of (Inl e) = Inl e"
| "responseMessage_of (Inr HNothing) = Inl TypeError"
| "responseMessage_of (Inr (HObject v)) = Inr v"

text \<open>
  The \<open>try\<close> of \<open>routeMessage\<close> covers the lookup and the handler; the promise of
  \<open>respondToRequest\<close> is returned without \<open>await\<close>. The catch block builds its error
  with \<open>Reflect.construct(IError, {...})\<close>, emits it on the event bus and throws it.
\<close>

definition routeMessage ::
  "env \<Rightarrow> clock \<Rightarrow> delivery \<Rightarrow> router \<Rightarrow> (error + response) \<times> router" where
  "routeMessage ev now dl r =
     (case (case queues_getHandlerByConsumerTag (dl_consumerTag dl) (queuesRoutingTable r) of
              Inl e \<Rightarrow> (Inl e, r)
            | Inr h \<Rightarrow>
                (let args = CreateListFromArrayLike (ObjectLiteral dl)
                 in (responseMessage_of (apply_handler h args),
                     log_event (HandlerApplied (length args)) r))) of
        (Inr responseMessage, r1) \<Rightarrow>
          respondToRequest ev now responseMessage (JString (m_id (dl_message dl)))
            (Some (m_replyOn (dl_message dl))) r1
      | (Inl cause, r1) \<Rightarrow>
          (let err = Reflect_construct_IError
                       (ObjectLiteral (''MQ_ROUTER_ROUTING_ERROR'',
                                       sourceIdentifier r1 @ ''.routeMessage'', Some cause))
           in (Inl err, emit_error err r1)))"

text \<open>
  \<open>defaultMessageConsumer\<close> is given the payload of the envelope as its \<open>message\<close>. It
  reads \<open>message.message\<close>, \<open>message.id\<close> and \<open>message.replyOn\<close> from it: on
  \<open>undefined\<close> or \<open>null\<close> the read raises, on any other payload it gives \<open>undefined\<close>.
\<close>

definition defaultMessageConsumer ::
  "env \<Rightarrow> clock \<Rightarrow> jsval \<Rightarrow> jsval \<Rightarrow> jsval \<Rightarrow> jsval \<Rightarrow> router \<Rightarrow> (error + jsval) \<times> router" where
  "defaultMessageConsumer ev now message queue topic exchange r =
     (case defaultHandler r of
        Some h \<Rightarrow>
          (if message = JUndefined \<or> message = JNull then (Inl TypeError, r)
           else (let args = CreateListFromArrayLike
                              (ObjectLiteral \<lparr>rp_message = JUndefined, rp_queue = queue,
                                              rp_topic = topic, rp_exchange = exchange\<rparr>);
                     r1 = log_event (DefaultHandlerApplied (length args)) r
                 in case responseMessage_of (h args) of
                      Inl e \<Rightarrow> (Inl e, r1)
                    | Inr responseMessage \<Rightarrow>
                        (case respondToRequest ev now responseMessage JUndefined None r1 of
                           (Inl e, r2) \<Rightarrow> (Inl e, r2)
                         | (Inr ok, r2) \<Rightarrow> (Inr (JBool True), r2))))
      | None \<Rightarrow>
          (let err = Reflect_construct_IError
                       (ObjectLiteral (''MQ_ROUTER_OWN_HANDLER'',
                                       sourceIdentifier r @ ''.ownHandler'', None))
           in (Inl err, emit_error err r)))"

text \<open>
  \<open>ownHandler({ message, queue, topic, exchange })\<close>, called with the router as \<open>this\<close>.
  It tests \<open>message.replyId === ''\<close> and passes \<open>message.replyId\<close> to \<open>callById\<close>.
\<close>

definition ownHandler ::
  "env \<Rightarrow> clock \<Rightarrow> envelope \<Rightarrow> jsval \<Rightarrow> jsval \<Rightarrow> jsval \<Rightarrow> router \<Rightarrow> (error + jsval) \<times> router" where
  "ownHandler ev now message queue topic exchange r =
     (if m_replyId message = JString []
      then defaultMessageConsumer ev now (m_message message) queue topic exchange r
      else (let msg = \<lparr>rp_message = m_message message, rp_queue = queue, rp_topic = topic,
                        rp_exchange = exchange\<rparr>
            in (Inr JUndefined,
                log_event (RequestsCallById (m_replyId message) msg)
                  (r\<lparr>requestsRoutingTable :=
                       requests_callById (m_replyId message) msg (requestsRoutingTable r)\<rparr>))))"

section \<open>Fixtures\<close>

text \<open>
  Collaborators for the concrete runs below: a connector that accepts every call (an empty
  queue name is replaced by a generated one), a serializer that never fails, and the same
  with a connector whose \<open>sendMessage\<close> fails.
\<close>

definition accepting_env :: env where
  "accepting_env =
     \<lparr>connector_sendMessage = (\<lambda>d w ttl. None),
      connector_subscribe =
        (\<lambda>q tp ex. Inr (if q = JString [] then JString ''amq.gen-1'' else q, ''ct-1'')),
      serializer_serialize = (\<lambda>m. Inr (Wire m))\<rparr>"

definition refusing_env :: env where
  "refusing_env = accepting_env\<lparr>connector_sendMessage := (\<lambda>d w ttl. Some (Failure ''channel closed''))\<rparr>"

text \<open>Router "A": an error collector, no default handler, the default ttl, started at 0.\<close>

definition router_A :: router where
  "router_A = constructor ''A'' JUndefined JUndefined JUndefined True None None 0"

definition svc :: destination where
  "svc = \<lparr>d_queue = JString ''svc'', d_exchange = JUndefined\<rparr>"

text \<open>Router "A" after one successful run of its bootstrap against these connectors.\<close>

definition router_A1 :: router where
  "router_A1 =
     router_A\<lparr>queuesRoutingTable :=
                 \<lparr>entries = [(0, \<lparr>reg_handler = OwnHandler, reg_queue = JString ''amq.gen-1'',
                                   reg_topic = JString [], reg_exchange = JString [],
                                   reg_consumerTag = Some ''ct-1''\<rparr>)],
                  next_index = 1\<rparr>,
               returnDestination := \<lparr>d_queue = JString ''amq.gen-1'', d_exchange = JUndefined\<rparr>,
               trace := [ConnectorSubscribe (JString []) (JString []) (JString []),
                         EmitSelfSubscribed None]\<rparr>"

text \<open>The envelope router "A" builds for the payload "ping" one second and five nanoseconds after its start.\<close>

definition ping_A1 :: envelope where
  "ping_A1 = \<lparr>m_id = ''A.1000000005'', m_replyTo = [],
                m_replyOn = \<lparr>d_queue = JString ''amq.gen-1'', d_exchange = JUndefined\<rparr>,
                m_from = ''A'', m_to = [], m_message = JBuffer ''ping''\<rparr>"

text \<open>
  Router "B" serves the queue "svc": its handler answers every delivery with the payload
  "pong". \<open>router_B1\<close> is the router after that subscription; \<open>request_delivery\<close> is the
  envelope of router "A" arriving on it under the consumer tag of the subscription, and
  \<open>stale_delivery\<close> the same under a tag the table does not hold.
\<close>

definition pong_handler :: handler where
  "pong_handler = UserHandler (\<lambda>args. Inr (HObject (JBuffer ''pong'')))"

definition router_B :: router where
  "router_B = constructor ''B'' JUndefined JUndefined JUndefined True None None 0"

definition router_B1 :: router where
  "router_B1 = snd (subscribe accepting_env pong_handler (JString ''svc'') JUndefined JUndefined router_B)"

definition request_delivery :: delivery where
  "request_delivery =
     \<lparr>dl_message = ping_A1, dl_queue = JString ''svc'', dl_topic = JString [],
      dl_exchange = JString [], dl_consumerTag = ''ct-1''\<rparr>"

definition stale_delivery :: delivery where
  "stale_delivery = request_delivery\<lparr>dl_consumerTag := ''ct-2''\<rparr>"

definition pong_B :: envelope where
  "pong_B = \<lparr>m_id = ''B.2000000000'', m_replyTo = [],
               m_replyOn = \<lparr>d_queue = JNull, d_exchange = JUndefined\<rparr>,
               m_from = ''B'', m_to = [], m_message = JBuffer ''pong''\<rparr>"

text \<open>
  Router "T" listens on a topic; router "A" with the request "A.1000000005" pending and a
  default handler configured, and the reply to that request as it arrives.
\<close>

definition router_T :: router where
  "router_T = constructor ''T'' (JString ''t.queue'') (JString ''t.topic'') (JString ''t.exchange'')
                True None None 0"

definition router_A2 :: router where
  "router_A2 =
     (snd (sendMQMsg accepting_env 1000000005 (JBuffer ''ping'') (Some svc) JUndefined True router_A1))
     \<lparr>defaultHandler := Some (\<lambda>args. Inr (HObject JNull))\<rparr>"

definition pong_reply :: envelope where
  "pong_reply = \<lparr>m_id = ''B.2000000000'', m_replyTo = ''A.1000000005'',
                   m_replyOn = \<lparr>d_queue = JNull, d_exchange = JUndefined\<rparr>,
                   m_from = ''B'', m_to = [], m_message = JBuffer ''pong''\<rparr>"

text \<open>The reply as the connector delivers it to router "A" on its own subscription.\<close>

definition reply_delivery :: delivery where
  "reply_delivery =
     \<lparr>dl_message = pong_reply, dl_queue = JString ''amq.gen-1'', dl_topic = JString [],
      dl_exchange = JString [], dl_consumerTag = ''ct-1''\<rparr>"

text \<open>The number a digit string denotes, most significant digit first.\<close>

definition digits_value :: "string \<Rightarrow> nat" where
  "digits_value s = foldl (\<lambda>a c. 10 * a + (of_char c - 48)) 0 s"

text \<open>The log entries that are calls on the correlation table.\<close>

fun is_requests_call :: "event \<Rightarrow> bool" where
  "is_requests_call (RequestsRegister i ttl) = True"
| "is_requests_call (RequestsUnregister i e) = True"
| "is_requests_call (RequestsCallById i m) = True"
| "is_requests_call e = False"

fun is_RequestsRegister :: "event \<Rightarrow> bool" where
  "is_RequestsRegister (RequestsRegister i ttl) = True"
| "is_RequestsRegister e = False"

section \<open>Message ids\<close>

text \<open>
  The decimal rendering can be read back, so it is injective. While the reading is not
  before the start and less than \<open>2 ^ 53\<close> nanoseconds after it, the product and the sum in
  \<open>getMessageId\<close> are exact, and the id ends in the decimal digits of the nanoseconds
  elapsed.
\<close>

lemma digit_char_value: "d < 10 \<Longrightarrow> (of_char (digit_char d) :: nat) = 48 + d"
proof -
  assume "d < 10"
  then have "d \<in> {0, 1, 2, 3, 4, 5, 6, 7, 8, 9}" by auto
  then show ?thesis by (auto simp: digit_char_def)
qed

lemma digits_value_digits: "digits_value (digits n) = n"
proof (induction n rule: digits.induct)
  case (1 n)
  show ?case
  proof (cases "n < 10")
    case True
    then show ?thesis
      by (subst digits.simps) (simp add: digits_value_def digit_char_value)
  next
    case False
    then have ih: "digits_value (digits (n div 10)) = n div 10"
      using "1.IH" by simp
    have "digits_value (digits n) = 10 * digits_value (digits (n div 10)) + n mod 10"
      using False by (subst digits.simps) (simp add: digits_value_def digit_char_value)
    then show ?thesis using ih by simp
  qed
qed

lemma digits_inj: "digits a = digits b \<Longrightarrow> a = b"
  by (metis digits_value_digits)

lemma process_hrtime_elapsed:
  assumes "start \<le> now"
  shows "fst (process_hrtime now (hrtime_of start)) * 1000000000 +
         snd (process_hrtime now (hrtime_of start)) = int (unat now - unat start)
     \<and> 0 \<le> fst (process_hrtime now (hrtime_of start))
     \<and> 0 \<le> snd (process_hrtime now (hrtime_of start))"
proof -
  define qa where "qa = int (unat now div 1000000000)"
  define ra where "ra = int (unat now mod 1000000000)"
  define qb where "qb = int (unat start div 1000000000)"
  define rb where "rb = int (unat start mod 1000000000)"
  have le: "unat start \<le> unat now"
    using assms by (simp add: word_le_nat_alt)
  have a: "int (unat now) = qa * 1000000000 + ra"
    unfolding qa_def ra_def by (metis of_nat_add of_nat_mult of_nat_numeral div_mult_mod_eq)
  have b: "int (unat start) = qb * 1000000000 + rb"
    unfolding qb_def rb_def by (metis of_nat_add of_nat_mult of_nat_numeral div_mult_mod_eq)
  have r: "0 \<le> ra" "ra < 1000000000" "0 \<le> rb" "rb < 1000000000" "0 \<le> qa" "0 \<le> qb"
    by (simp_all add: ra_def rb_def qa_def qb_def)
  have e: "int (unat now - unat start) = qa * 1000000000 + ra - (qb * 1000000000 + rb)"
    using le a b by (simp add: of_nat_diff)
  have d: "process_hrtime now (hrtime_of start) =
             (if ra - rb < 0 then (qa - qb - 1, ra - rb + 1000000000) else (qa - qb, ra - rb))"
    by (simp add: process_hrtime_def hrtime_of_def Let_def qa_def ra_def qb_def rb_def)
  have p: "0 \<le> qa * 1000000000 + ra - (qb * 1000000000 + rb)"
    using e by linarith
  show ?thesis
  proof (cases "ra - rb < 0")
    case True
    then have "qb < qa" using p r by linarith
    then show ?thesis using True r by (simp add: d e)
  next
    case False
    then have "qb \<le> qa" using p r by linarith
    then show ?thesis using False by (simp add: d e)
  qed
qed

lemma Number_of_exact: "0 \<le> i \<Longrightarrow> i < 2 ^ 53 \<Longrightarrow> Number_of i = i"
  by (simp add: Number_of_def round_to_double_def nat_less_iff)

lemma Number_toString_exact: "e < 2 ^ 53 \<Longrightarrow> Number_toString (int e) = digits e"
  by (simp add: Number_toString_def positive_toString_def)

lemma getMessageId_exact:
  assumes "startTime (identification r) \<le> now"
    and "unat now - unat (startTime (identification r)) < 2 ^ 53"
  shows "getMessageId r now =
           name (identification r) @ ''.'' @ digits (unat now - unat (startTime (identification r)))"
proof -
  let ?d = "process_hrtime now (hrtime_of (startTime (identification r)))"
  let ?e = "unat now - unat (startTime (identification r))"
  from process_hrtime_elapsed [OF assms(1)]
  have sum: "fst ?d * 1000000000 + snd ?d = int ?e" and f: "0 \<le> fst ?d" and s: "0 \<le> snd ?d"
    by simp_all
  have e: "int ?e < 2 ^ 53"
    using assms(2) by (metis of_nat_less_iff of_nat_numeral of_nat_power)
  have "fst ?d * 1000000000 \<le> int ?e" using sum s by linarith
  then have p: "Number_times (fst ?d) NS_FACTOR = fst ?d * 1000000000"
    using f e by (simp add: Number_times_def NS_FACTOR_def Number_of_exact)
  have "Number_plus (fst ?d * 1000000000) (snd ?d) = int ?e"
    using sum e by (simp add: Number_plus_def Number_of_exact)
  then show ?thesis
    using assms(2) by (simp add: getMessageId_def Let_def p Number_toString_exact)
qed

lemma digits_1000000005: "digits 1000000005 = ''1000000005''"
  by (simp add: digits.simps digit_char_def)

lemma digits_1000000006: "digits 1000000006 = ''1000000006''"
  by (simp add: digits.simps digit_char_def)

lemma getMessageId_started_at_0:
  assumes "startTime (identification r) = 0" and "unat now < 2 ^ 53"
  shows "getMessageId r now = name (identification r) @ ''.'' @ digits (unat now)"
  using getMessageId_exact [of r now] assms by simp

lemma buildRequest_A_5:
  "buildRequest accepting_env router_A 1000000005 (JBuffer ''ping'') [] [] =
     Inr (Wire \<lparr>m_id = ''A.1000000005'', m_replyTo = [],
                 m_replyOn = \<lparr>d_queue = JNull, d_exchange = JUndefined\<rparr>,
                 m_from = ''A'', m_to = [], m_message = JBuffer ''ping''\<rparr>, ''A.1000000005'')"
proof -
  have "getMessageId router_A 1000000005 = ''A.1000000005''"
    by (simp add: getMessageId_started_at_0 router_A_def constructor_def digits_1000000005)
  then show ?thesis
    by (simp add: buildRequest_def accepting_env_def)
      (simp add: router_A_def constructor_def)
qed

lemma buildRequest_A_6:
  "buildRequest accepting_env router_A 1000000006 (JBuffer ''ping'') [] [] =
     Inr (Wire \<lparr>m_id = ''A.1000000006'', m_replyTo = [],
                 m_replyOn = \<lparr>d_queue = JNull, d_exchange = JUndefined\<rparr>,
                 m_from = ''A'', m_to = [], m_message = JBuffer ''ping''\<rparr>, ''A.1000000006'')"
proof -
  have "getMessageId router_A 1000000006 = ''A.1000000006''"
    by (simp add: getMessageId_started_at_0 router_A_def constructor_def digits_1000000006)
  then show ?thesis
    by (simp add: buildRequest_def accepting_env_def)
      (simp add: router_A_def constructor_def)
qed

text \<open>
  C9 (as amended): while the clock reading is not before the router's start and less than
  \<open>2 ^ 53\<close> nanoseconds (about 104 days) after it, the generated message id is the
  router's name, a dot, and the nanoseconds elapsed since the start in decimal; two
  envelopes built by routers of the same name and start time (the same router at two
  moments) at two different such readings, as a strictly monotonic clock gives them, have
  different ids.
\<close>

theorem message_id_format_and_uniqueness:
  assumes "startTime (identification r1) \<le> t1" and "startTime (identification r1) \<le> t2"
    and "unat t1 - unat (startTime (identification r1)) < 2 ^ 53"
    and "unat t2 - unat (startTime (identification r1)) < 2 ^ 53"
    and "t1 \<noteq> t2"
    and "name (identification r2) = name (identification r1)"
    and "startTime (identification r2) = startTime (identification r1)"
    and "buildRequest ev1 r1 t1 msg1 rid1 to1 = Inr (w1, i1)"
    and "buildRequest ev2 r2 t2 msg2 rid2 to2 = Inr (w2, i2)"
  shows "i1 = name (identification r1) @ ''.'' @
              Number_toString (int (unat t1 - unat (startTime (identification r1))))
         \<and> i1 = getMessageId r1 t1 \<and> i2 = getMessageId r2 t2 \<and> i1 \<noteq> i2"
proof -
  let ?s = "startTime (identification r1)"
  have a: "i1 = getMessageId r1 t1"
    using assms(8) by (auto simp: buildRequest_def Let_def split: if_splits sum.splits)
  have b: "i2 = getMessageId r2 t2"
    using assms(9) by (auto simp: buildRequest_def Let_def split: if_splits sum.splits)
  have g1: "getMessageId r1 t1 = name (identification r1) @ ''.'' @ digits (unat t1 - unat ?s)"
    using assms(1,3) by (rule getMessageId_exact)
  have g2: "getMessageId r2 t2 = name (identification r1) @ ''.'' @ digits (unat t2 - unat ?s)"
    using getMessageId_exact [of r2 t2] assms(2,4,6,7) by simp
  have "unat t1 \<noteq> unat t2"
    using assms(5) by (simp add: word_unat_eq_iff)
  moreover have "unat ?s \<le> unat t1" "unat ?s \<le> unat t2"
    using assms(1,2) by (simp_all add: word_le_nat_alt)
  ultimately have "unat t1 - unat ?s \<noteq> unat t2 - unat ?s" by linarith
  then have "digits (unat t1 - unat ?s) \<noteq> digits (unat t2 - unat ?s)"
    using digits_inj by blast
  then show ?thesis
    using a b g1 g2 assms(3) by (simp add: Number_toString_exact)
qed

theorem message_id_format_and_uniqueness_witness:
  "(0 :: clock) \<le> 1000000005 \<and> (0 :: clock) \<le> 1000000006
   \<and> unat (1000000005 :: clock) - unat (0 :: clock) < 2 ^ 53
   \<and> buildRequest accepting_env router_A 1000000005 (JBuffer ''ping'') [] [] =
       Inr (Wire \<lparr>m_id = ''A.1000000005'', m_replyTo = [],
                   m_replyOn = \<lparr>d_queue = JNull, d_exchange = JUndefined\<rparr>,
                   m_from = ''A'', m_to = [], m_message = JBuffer ''ping''\<rparr>, ''A.1000000005'')
   \<and> getMessageId router_A 1000000005 = ''A.1000000005''
   \<and> getMessageId router_A 1000000006 = ''A.1000000006''
   \<and> getMessageId router_A 1000000005 \<noteq> getMessageId router_A 1000000006"
proof -
  have s: "startTime (identification router_A) = 0"
    by (simp add: router_A_def constructor_def)
  have v: "startTime (identification router_A) \<le> 1000000005"
    "startTime (identification router_A) \<le> 1000000006"
    "unat (1000000005 :: clock) - unat (startTime (identification router_A)) < 2 ^ 53"
    "unat (1000000006 :: clock) - unat (startTime (identification router_A)) < 2 ^ 53"
    "(1000000005 :: clock) \<noteq> 1000000006"
    by (simp_all add: s)
  from message_id_format_and_uniqueness [OF v refl refl buildRequest_A_5 buildRequest_A_6]
  have a: "''A.1000000005'' = getMessageId router_A 1000000005"
    and b: "''A.1000000006'' = getMessageId router_A 1000000006"
    by blast+
  show ?thesis
    using buildRequest_A_5 a [symmetric] b [symmetric] by simp
qed

text \<open>
  C9 as stated fails: router "A" builds two envelopes \<open>2 ^ 53\<close> and \<open>2 ^ 53 + 1\<close>
  nanoseconds after its start (about 104 days), two different readings of a strictly
  monotonic clock that has not wrapped. The sum for the second reading is not a double and
  is rounded to \<open>2 ^ 53\<close>: both envelopes get the id "A.9007199254740992", and the second
  id is not the name followed by the nanoseconds elapsed.
\<close>

lemma sum_9007199254740992:
  "Number_plus (Number_times 9007199 NS_FACTOR) 254740992 = 9007199254740992"
  by (simp add: Number_plus_def Number_times_def Number_of_def NS_FACTOR_def round_to_double_def
      bit_length.simps Let_def)

lemma sum_9007199254740993:
  "Number_plus (Number_times 9007199 NS_FACTOR) 254740993 = 9007199254740992"
  by (simp add: Number_plus_def Number_times_def Number_of_def NS_FACTOR_def round_to_double_def
      bit_length.simps Let_def)

lemma string_9007199254740992: "Number_toString 9007199254740992 = ''9007199254740992''"
  by (simp add: Number_toString_def positive_toString_def shortest_representation_def
      representations_def distance_def round_to_double_def bit_length.simps digits.simps
      digit_char_def Let_def)

theorem message_id_collision_counterexample:
  "(9007199254740992 :: clock) < 9007199254740993
   \<and> buildRequest accepting_env router_A 9007199254740992 (JBuffer ''ping'') [] [] =
       Inr (Wire \<lparr>m_id = ''A.9007199254740992'', m_replyTo = [],
                   m_replyOn = \<lparr>d_queue = JNull, d_exchange = JUndefined\<rparr>,
                   m_from = ''A'', m_to = [], m_message = JBuffer ''ping''\<rparr>, ''A.9007199254740992'')
   \<and> buildRequest accepting_env router_A 9007199254740993 (JBuffer ''pong'') [] [] =
       Inr (Wire \<lparr>m_id = ''A.9007199254740992'', m_replyTo = [],
                   m_replyOn = \<lparr>d_queue = JNull, d_exchange = JUndefined\<rparr>,
                   m_from = ''A'', m_to = [], m_message = JBuffer ''pong''\<rparr>, ''A.9007199254740992'')
   \<and> getMessageId router_A 9007199254740993 \<noteq> ''A.9007199254740993''"
proof -
  have g: "getMessageId router_A 9007199254740992 = ''A.9007199254740992''"
    "getMessageId router_A 9007199254740993 = ''A.9007199254740992''"
    by (simp_all add: getMessageId_def process_hrtime_def hrtime_of_def router_A_def
        constructor_def Let_def sum_9007199254740992 sum_9007199254740993
        string_9007199254740992)
  show ?thesis
    by (simp add: buildRequest_def g accepting_env_def)
      (simp add: router_A_def constructor_def)
qed

section \<open>Fire-and-forget sends and the correlation table\<close>

lemma sendMQMsg_fire_and_forget_table:
  "requestsRoutingTable (snd (sendMQMsg ev now message destination ttl False r)) = requestsRoutingTable r"
  by (simp add: sendMQMsg_def log_event_def Let_def split: sum.splits option.splits prod.splits)

lemma sendMQMsg_fire_and_forget_calls:
  "filter is_requests_call (trace (snd (sendMQMsg ev now message destination ttl False r))) =
   filter is_requests_call (trace r)"
  by (simp add: sendMQMsg_def log_event_def Let_def split: sum.splits option.splits prod.splits)

lemma respondToRequest_table:
  "requestsRoutingTable (snd (respondToRequest ev now message replyId destination r)) = requestsRoutingTable r"
  by (simp add: respondToRequest_def sendMQMsg_fire_and_forget_table)

lemma respondToRequest_calls:
  "filter is_requests_call (trace (snd (respondToRequest ev now message replyId destination r))) =
   filter is_requests_call (trace r)"
  by (simp add: respondToRequest_def sendMQMsg_fire_and_forget_calls)

lemma routeMessage_table:
  "requestsRoutingTable (snd (routeMessage ev now dl r)) = requestsRoutingTable r"
  by (simp add: routeMessage_def respondToRequest_table emit_error_def log_event_def Let_def
      split: sum.splits prod.splits)

lemma routeMessage_calls:
  "filter is_requests_call (trace (snd (routeMessage ev now dl r))) = filter is_requests_call (trace r)"
  by (simp add: routeMessage_def respondToRequest_calls emit_error_def log_event_def Let_def
      split: sum.splits prod.splits)

text \<open>
  C10: a send with \<open>isRequest = false\<close> (\<open>sendMQMsg\<close> itself, \<open>sendMessage\<close>, a response
  sent by \<open>respondToRequest\<close>, a whole \<open>routeMessage\<close>) leaves the correlation table as
  it was and makes no call on it, whatever the collaborators answer; and a response for a
  \<open>null\<close> handler result returns \<open>true\<close> with the router unchanged, so nothing is sent.
\<close>

theorem fire_and_forget_leaves_correlation_table:
  "requestsRoutingTable (snd (sendMQMsg ev now message destination ttl False r)) = requestsRoutingTable r
   \<and> filter is_requests_call (trace (snd (sendMQMsg ev now message destination ttl False r))) =
       filter is_requests_call (trace r)
   \<and> requestsRoutingTable (snd (sendMessage ev now message destination ttl r)) = requestsRoutingTable r
   \<and> filter is_requests_call (trace (snd (sendMessage ev now message destination ttl r))) =
       filter is_requests_call (trace r)
   \<and> requestsRoutingTable (snd (respondToRequest ev now message replyId destination r)) =
       requestsRoutingTable r
   \<and> filter is_requests_call (trace (snd (respondToRequest ev now message replyId destination r))) =
       filter is_requests_call (trace r)
   \<and> requestsRoutingTable (snd (routeMessage ev now dl r)) = requestsRoutingTable r
   \<and> filter is_requests_call (trace (snd (routeMessage ev now dl r))) =
       filter is_requests_call (trace r)
   \<and> respondToRequest ev now JNull replyId destination r = (Inr RTrue, r)"
  by (simp add: sendMQMsg_fire_and_forget_table sendMQMsg_fire_and_forget_calls sendMessage_def
      respondToRequest_table respondToRequest_calls routeMessage_table routeMessage_calls)
    (simp add: respondToRequest_def)

section \<open>Concrete runs of router "A"\<close>

lemma bootstrap_router_A:
  "checkIfIsSelfSubscribedForResponses accepting_env router_A = (Some (Inr True), router_A1)"
  by (simp add: checkIfIsSelfSubscribedForResponses_def checkIfIsSelfSubscribedForResponses_begin_def
      checkIfIsSelfSubscribedForResponses_resume_def subscribe_begin_def subscribe_resume_def
      queues_register_def queues_update_def param_default_def log_event_def emit_selfSubscribed_def
      router_A_def router_A1_def constructor_def accepting_env_def Let_def)

lemma bootstrap_router_A_refusing:
  "checkIfIsSelfSubscribedForResponses refusing_env router_A = (Some (Inr True), router_A1)"
  by (simp add: checkIfIsSelfSubscribedForResponses_def checkIfIsSelfSubscribedForResponses_begin_def
      checkIfIsSelfSubscribedForResponses_resume_def subscribe_begin_def subscribe_resume_def
      queues_register_def queues_update_def param_default_def log_event_def emit_selfSubscribed_def
      router_A_def router_A1_def constructor_def accepting_env_def refusing_env_def Let_def)

lemma getMessageId_A1: "getMessageId router_A1 1000000005 = ''A.1000000005''"
  by (simp add: getMessageId_started_at_0 router_A1_def router_A_def constructor_def
      digits_1000000005)

lemma buildRequest_A1:
  "serializer_serialize ev = (\<lambda>m. Inr (Wire m)) \<Longrightarrow>
   buildRequest ev router_A1 1000000005 (JBuffer ''ping'') [] [] = Inr (Wire ping_A1, ''A.1000000005'')"
  by (simp add: buildRequest_def getMessageId_A1 ping_A1_def)
    (simp add: router_A1_def router_A_def constructor_def)

lemma validateDestination_svc: "validateDestination r (Some svc) = Inr True"
  by (simp add: validateDestination_def svc_def)

lemma pending_A1: "pending (requestsRoutingTable router_A1) i = None"
  by (simp add: router_A1_def router_A_def constructor_def)

lemma defaultTTL_A1: "defaultTTL router_A1 = 5000"
  by (simp add: router_A1_def router_A_def constructor_def MS_FACTOR_def)

lemma sendMQMsg_A1_accepted:
  "sendMQMsg accepting_env 1000000005 (JBuffer ''ping'') (Some svc) ttl True router_A1 =
     (Inr (RFuture ''A.1000000005''),
      router_A1\<lparr>requestsRoutingTable :=
                  \<lparr>pending = [''A.1000000005'' \<mapsto> (if truthy ttl then ttl else JNumber 5000)],
                   settled = []\<rparr>,
                trace := trace router_A1 @
                  [RequestsRegister ''A.1000000005'' (if truthy ttl then ttl else JNumber 5000),
                   ConnectorSendMessage svc (Wire ping_A1)
                     (if truthy ttl then ttl else JNumber 5000)]\<rparr>)"
proof -
  have b: "buildRequest accepting_env router_A1 1000000005 (JBuffer ''ping'') [] [] =
             Inr (Wire ping_A1, ''A.1000000005'')"
    by (rule buildRequest_A1) (simp add: accepting_env_def)
  have t: "requestsRoutingTable router_A1 = \<lparr>pending = Map.empty, settled = []\<rparr>"
    by (simp add: router_A1_def router_A_def constructor_def)
  have a: "\<And>d w l. connector_sendMessage accepting_env d w l = None"
    by (simp add: accepting_env_def)
  show ?thesis
    by (simp add: sendMQMsg_def validateDestination_svc b defaultTTL_A1 requests_register_def t
        log_event_def Let_def a)
qed

section \<open>A failed send of a request\<close>

text \<open>
  C4: when the bootstrap of a \<open>sendRequest\<close> has succeeded, the destination is valid, the
  envelope is built and its id is registered (it was not pending), and the connector's
  \<open>sendMessage\<close> then fails with \<open>err\<close>, the call still returns the future of the
  registration, the id is no longer pending, its settlement is the rejection with \<open>err\<close>,
  and the calls on the table are the register followed by \<open>unregister\<close> with that error;
  the same send without a registration (\<open>isRequest = false\<close>, \<open>sendMessage\<close>) fails with
  \<open>err\<close> itself.
\<close>

theorem send_failure_rolls_back_registration:
  assumes boot: "checkIfIsSelfSubscribedForResponses ev r = (Some (Inr ok), r1)"
    and valid: "validateDestination r1 (Some d) = Inr ok'"
    and built: "buildRequest ev r1 now message [] [] = Inr (w, i)"
    and fresh: "pending (requestsRoutingTable r1) i = None"
    and fails: "connector_sendMessage ev d w (if truthy ttl then ttl else JNumber (defaultTTL r1)) = Some err"
  shows "fst (sendRequest ev now message (Some d) ttl r) = Some (Inr (RFuture i))
     \<and> pending (requestsRoutingTable (snd (sendRequest ev now message (Some d) ttl r))) i = None
     \<and> settled (requestsRoutingTable (snd (sendRequest ev now message (Some d) ttl r))) =
         settled (requestsRoutingTable r1) @ [(i, Rejected err)]
     \<and> filter is_requests_call (trace (snd (sendRequest ev now message (Some d) ttl r))) =
         filter is_requests_call (trace r1) @
         [RequestsRegister i (if truthy ttl then ttl else JNumber (defaultTTL r1)),
          RequestsUnregister i err]
     \<and> fst (sendMQMsg ev now message (Some d) ttl False r1) = Inl err
     \<and> fst (sendMessage ev now message (Some d) ttl r1) = Inl err"
proof -
  let ?l = "if truthy ttl then ttl else JNumber (defaultTTL r1)"
  have reg: "requests_register i ?l (requestsRoutingTable r1) =
               Inr ((requestsRoutingTable r1)\<lparr>pending := (pending (requestsRoutingTable r1))(i \<mapsto> ?l)\<rparr>)"
    using fresh by (simp add: requests_register_def)
  have req: "sendMQMsg ev now message (Some d) ttl True r1 =
      (Inr (RFuture i),
       log_event (RequestsUnregister i err)
         ((log_event (ConnectorSendMessage d w ?l)
            (log_event (RequestsRegister i ?l)
               (r1\<lparr>requestsRoutingTable :=
                     (requestsRoutingTable r1)\<lparr>pending := (pending (requestsRoutingTable r1))(i \<mapsto> ?l)\<rparr>\<rparr>)))
          \<lparr>requestsRoutingTable :=
             requests_unregister i err
               ((requestsRoutingTable r1)\<lparr>pending := (pending (requestsRoutingTable r1))(i \<mapsto> ?l)\<rparr>)\<rparr>))"
    using valid built fails reg by (simp add: sendMQMsg_def Let_def log_event_def)
  have msg: "fst (sendMQMsg ev now message (Some d) ttl False r1) = Inl err"
    using valid built fails by (simp add: sendMQMsg_def Let_def log_event_def)
  have sr: "sendRequest ev now message (Some d) ttl r =
              (Some (fst (sendMQMsg ev now message (Some d) ttl True r1)),
               snd (sendMQMsg ev now message (Some d) ttl True r1))"
    using boot by (simp add: sendRequest_def split: prod.splits)
  show ?thesis
    unfolding sr sendMessage_def
    using msg
    by (simp add: req log_event_def requests_unregister_def requests_settle_def)
qed


theorem send_failure_rolls_back_registration_witness:
  "checkIfIsSelfSubscribedForResponses refusing_env router_A = (Some (Inr True), router_A1)
   \<and> validateDestination router_A1 (Some svc) = Inr True
   \<and> buildRequest refusing_env router_A1 1000000005 (JBuffer ''ping'') [] [] =
       Inr (Wire ping_A1, ''A.1000000005'')
   \<and> pending (requestsRoutingTable router_A1) ''A.1000000005'' = None
   \<and> connector_sendMessage refusing_env svc (Wire ping_A1) (JNumber 5000) =
       Some (Failure ''channel closed'')
   \<and> fst (sendRequest refusing_env 1000000005 (JBuffer ''ping'') (Some svc) JUndefined router_A) =
       Some (Inr (RFuture ''A.1000000005''))
   \<and> pending (requestsRoutingTable
         (snd (sendRequest refusing_env 1000000005 (JBuffer ''ping'') (Some svc) JUndefined router_A)))
         ''A.1000000005'' = None
   \<and> settled (requestsRoutingTable
         (snd (sendRequest refusing_env 1000000005 (JBuffer ''ping'') (Some svc) JUndefined router_A))) =
       [(''A.1000000005'', Rejected (Failure ''channel closed''))]
   \<and> fst (sendMessage refusing_env 1000000005 (JBuffer ''ping'') (Some svc) JUndefined router_A1) =
       Inl (Failure ''channel closed'')"
proof -
  have b: "buildRequest refusing_env router_A1 1000000005 (JBuffer ''ping'') [] [] =
             Inr (Wire ping_A1, ''A.1000000005'')"
    by (rule buildRequest_A1) (simp add: refusing_env_def accepting_env_def)
  have f: "connector_sendMessage refusing_env svc (Wire ping_A1)
             (if truthy JUndefined then JUndefined else JNumber (defaultTTL router_A1)) =
           Some (Failure ''channel closed'')"
    by (simp add: refusing_env_def)
  have s: "settled (requestsRoutingTable router_A1) = []"
    by (simp add: router_A1_def router_A_def constructor_def)
  from send_failure_rolls_back_registration
         [OF bootstrap_router_A_refusing validateDestination_svc b pending_A1 f]
  show ?thesis
    using bootstrap_router_A_refusing validateDestination_svc b pending_A1 f s
    by (simp add: defaultTTL_A1)
qed

section \<open>The ttl of a registration\<close>

text \<open>
  C8 (as amended): a router constructed without \<open>defaultTTL\<close> has the default 5000
  (milliseconds); a request that reaches the table is registered under its message id with
  \<open>options.ttl\<close> when that is truthy (a non-zero number), and with the router's default
  otherwise (no \<open>options.ttl\<close>, or a falsy one such as 0).
\<close>

theorem registered_ttl_is_truthy_option_or_default:
  assumes "sendMQMsg ev now message destination ttl True r = (Inr res, r')"
  shows "defaultTTL (constructor nm q tp ex c h None t0) = 5000
     \<and> res = RFuture (getMessageId r now)
     \<and> filter is_RequestsRegister (trace r') =
         filter is_RequestsRegister (trace r) @
         [RequestsRegister (getMessageId r now) (if truthy ttl then ttl else JNumber (defaultTTL r))]"
proof -
  have "defaultTTL (constructor nm q tp ex c h None t0) = 5000"
    by (simp add: constructor_def MS_FACTOR_def)
  moreover have "res = RFuture (getMessageId r now)
     \<and> filter is_RequestsRegister (trace r') =
         filter is_RequestsRegister (trace r) @
         [RequestsRegister (getMessageId r now) (if truthy ttl then ttl else JNumber (defaultTTL r))]"
    using assms
    by (auto simp: sendMQMsg_def buildRequest_def requests_register_def log_event_def Let_def
        split: sum.splits option.splits prod.splits if_splits)
  ultimately show ?thesis by simp
qed

theorem registered_ttl_is_truthy_option_or_default_witness:
  "fst (sendMQMsg accepting_env 1000000005 (JBuffer ''ping'') (Some svc) (JNumber 250) True router_A1) =
     Inr (RFuture ''A.1000000005'')
   \<and> filter is_RequestsRegister
        (trace (snd (sendMQMsg accepting_env 1000000005 (JBuffer ''ping'') (Some svc) (JNumber 250) True
                       router_A1))) =
      [RequestsRegister (getMessageId router_A1 1000000005) (JNumber 250)]"
proof -
  have "filter is_RequestsRegister (trace router_A1) = []"
    by (simp add: router_A1_def)
  with registered_ttl_is_truthy_option_or_default
         [OF sendMQMsg_A1_accepted [of "JNumber 250"], of "[]" JNull JNull JNull False None 0]
  show ?thesis
    by (simp add: sendMQMsg_A1_accepted)
qed

text \<open>
  C8 as stated fails: \<open>options.ttl = 0\<close> is supplied, and the request is registered with
  the default 5000, since \<open>options.ttl || this.defaultTTL\<close> skips a falsy ttl.
\<close>

theorem supplied_zero_ttl_counterexample:
  "fst (sendRequest accepting_env 1000000005 (JBuffer ''ping'') (Some svc) (JNumber 0) router_A) =
     Some (Inr (RFuture ''A.1000000005''))
   \<and> pending (requestsRoutingTable
        (snd (sendRequest accepting_env 1000000005 (JBuffer ''ping'') (Some svc) (JNumber 0) router_A)))
        ''A.1000000005'' = Some (JNumber 5000)
   \<and> filter is_RequestsRegister
        (trace (snd (sendRequest accepting_env 1000000005 (JBuffer ''ping'') (Some svc) (JNumber 0) router_A))) =
      [RequestsRegister ''A.1000000005'' (JNumber 5000)]
   \<and> RequestsRegister ''A.1000000005'' (JNumber 0) \<notin>
      set (trace (snd (sendRequest accepting_env 1000000005 (JBuffer ''ping'') (Some svc) (JNumber 0) router_A)))"
  by (simp add: sendRequest_def bootstrap_router_A sendMQMsg_A1_accepted)
    (simp add: router_A1_def)

section \<open>The self-subscription bootstrap\<close>

lemma begin_idle:
  assumes "\<not> subscribed (identification r)" and "\<not> subscribing (identification r)"
  shows "\<not> subscribed (identification (snd (checkIfIsSelfSubscribedForResponses_begin r)))
     \<and> \<not> subscribing (identification (snd (checkIfIsSelfSubscribedForResponses_begin r)))
     \<and> selfSubscribed_listeners (snd (checkIfIsSelfSubscribedForResponses_begin r)) =
         selfSubscribed_listeners r
     \<and> subscribe_calls (snd (checkIfIsSelfSubscribedForResponses_begin r)) = Suc (subscribe_calls r)"
  using assms
  by (simp add: checkIfIsSelfSubscribedForResponses_begin_def subscribe_begin_def
      queues_register_def log_event_def subscribe_calls_def Let_def)

lemma arrivals_idle:
  "\<not> subscribed (identification r) \<Longrightarrow> \<not> subscribing (identification r) \<Longrightarrow>
   subscribe_calls (arrivals n r) = subscribe_calls r + n
   \<and> \<not> subscribing (identification (arrivals n r))
   \<and> selfSubscribed_listeners (arrivals n r) = selfSubscribed_listeners r"
proof (induction n arbitrary: r)
  case 0
  then show ?case by simp
next
  case (Suc n)
  from begin_idle [OF Suc.prems] Suc.IH [of "snd (checkIfIsSelfSubscribedForResponses_begin r)"]
  show ?case by simp
qed

text \<open>
  C1: on a freshly constructed router, \<open>n\<close> calls of \<open>sendRequest\<close> that arrive before
  any subscribe has completed issue \<open>n\<close> subscribe calls on the connector, one each: the
  flag \<open>subscribing\<close> is still false after every arrival and no caller waits on the
  \<open>selfSubscribed\<close> notification. For two arrivals on router "A" that is two calls.
\<close>

theorem every_arrival_subscribes:
  "subscribe_calls (arrivals n (constructor nm q tp ex c h ttl t0)) = n
   \<and> subscribing (identification (arrivals n (constructor nm q tp ex c h ttl t0))) = False
   \<and> selfSubscribed_listeners (arrivals n (constructor nm q tp ex c h ttl t0)) = 0
   \<and> subscribe_calls (arrivals 2 router_A) = 2"
proof -
  have i: "\<not> subscribed (identification (constructor nm q tp ex c h ttl t0))"
    "\<not> subscribing (identification (constructor nm q tp ex c h ttl t0))"
    "subscribe_calls (constructor nm q tp ex c h ttl t0) = 0"
    "selfSubscribed_listeners (constructor nm q tp ex c h ttl t0) = 0"
    for nm q tp ex c h ttl t0
    by (simp_all add: constructor_def subscribe_calls_def)
  show ?thesis
    using arrivals_idle [where r = "constructor nm q tp ex c h ttl t0" and n = n]
      arrivals_idle [where r = "constructor ''A'' JUndefined JUndefined JUndefined True None None 0"
        and n = 2]
    by (simp add: i router_A_def)
qed

lemma bootstrap_keeps_subscribed:
  "subscribed (identification (snd (checkIfIsSelfSubscribedForResponses ev r))) =
   subscribed (identification r)"
  by (simp add: checkIfIsSelfSubscribedForResponses_def checkIfIsSelfSubscribedForResponses_begin_def
      checkIfIsSelfSubscribedForResponses_resume_def subscribe_begin_def subscribe_resume_def
      subscribe_catch_def queues_register_def emit_selfSubscribed_def log_event_def Let_def
      split: sum.splits prod.splits)

lemma bootstrap_router_A1:
  "subscribe_calls (snd (checkIfIsSelfSubscribedForResponses accepting_env router_A1)) = 2"
  by (simp add: checkIfIsSelfSubscribedForResponses_def checkIfIsSelfSubscribedForResponses_begin_def
      checkIfIsSelfSubscribedForResponses_resume_def subscribe_begin_def subscribe_resume_def
      queues_register_def queues_update_def param_default_def log_event_def emit_selfSubscribed_def
      router_A_def router_A1_def constructor_def accepting_env_def Let_def subscribe_calls_def)

lemma bootstrap_router_T:
  "trace (snd (checkIfIsSelfSubscribedForResponses accepting_env router_T)) =
     [ConnectorSubscribe (JString []) (JString []) (JString []), EmitSelfSubscribed None]
   \<and> d_queue (returnDestination (snd (checkIfIsSelfSubscribedForResponses accepting_env router_T))) =
     JString ''amq.gen-1''"
  by (simp add: checkIfIsSelfSubscribedForResponses_def checkIfIsSelfSubscribedForResponses_begin_def
      checkIfIsSelfSubscribedForResponses_resume_def subscribe_begin_def subscribe_resume_def
      queues_register_def queues_update_def param_default_def log_event_def emit_selfSubscribed_def
      router_T_def constructor_def accepting_env_def Let_def)

text \<open>
  C2: the bootstrap never changes the flag \<open>subscribed\<close>. On router "A" it succeeds and
  records the assigned queue name as the return destination, the flag is false afterwards,
  and a second run issues a second subscribe on the connector. On router "T", which listens
  on a topic, the subscribe goes out with empty queue, topic and exchange, and the return
  destination recorded is the generated queue name.
\<close>

theorem bootstrap_never_reaches_subscribed:
  "subscribed (identification (snd (checkIfIsSelfSubscribedForResponses ev r))) =
     subscribed (identification r)
   \<and> checkIfIsSelfSubscribedForResponses accepting_env router_A = (Some (Inr True), router_A1)
   \<and> subscribed (identification router_A1) = False
   \<and> d_queue (returnDestination router_A1) = JString ''amq.gen-1''
   \<and> subscribe_calls router_A1 = 1
   \<and> subscribe_calls (snd (checkIfIsSelfSubscribedForResponses accepting_env router_A1)) = 2
   \<and> trace (snd (checkIfIsSelfSubscribedForResponses accepting_env router_T)) =
       [ConnectorSubscribe (JString []) (JString []) (JString []), EmitSelfSubscribed None]
   \<and> d_queue (returnDestination (snd (checkIfIsSelfSubscribedForResponses accepting_env router_T))) =
       JString ''amq.gen-1''"
  using bootstrap_keeps_subscribed [of ev r] bootstrap_router_A bootstrap_router_A1 bootstrap_router_T
  by (simp add: router_A1_def router_A_def constructor_def subscribe_calls_def)

section \<open>Routing an inbound delivery\<close>

lemma router_B1_eq:
  "router_B1 =
     router_B\<lparr>queuesRoutingTable :=
                 \<lparr>entries = [(0, \<lparr>reg_handler = pong_handler, reg_queue = JString ''svc'',
                                   reg_topic = JString [], reg_exchange = JString [],
                                   reg_consumerTag = Some ''ct-1''\<rparr>)],
                  next_index = 1\<rparr>,
               trace := [ConnectorSubscribe (JString ''svc'') (JString []) (JString [])]\<rparr>"
  by (simp add: router_B1_def subscribe_def subscribe_begin_def subscribe_resume_def
      queues_register_def queues_update_def param_default_def log_event_def
      router_B_def constructor_def accepting_env_def Let_def)

lemma digits_2000000000: "digits 2000000000 = ''2000000000''"
  by (simp add: digits.simps digit_char_def)

lemma getMessageId_B1: "getMessageId router_B1 2000000000 = ''B.2000000000''"
  by (simp add: getMessageId_started_at_0 router_B1_eq router_B_def constructor_def
      digits_2000000000)

lemma buildRequest_B1:
  "buildRequest accepting_env (log_event e router_B1) 2000000000 (JBuffer ''pong'') [] [] =
     Inr (Wire pong_B, ''B.2000000000'')"
proof -
  have "getMessageId (log_event e router_B1) 2000000000 = getMessageId router_B1 2000000000"
    by (simp add: getMessageId_def log_event_def)
  then show ?thesis
    by (simp add: buildRequest_def getMessageId_B1 pong_B_def accepting_env_def log_event_def)
      (simp add: router_B1_eq router_B_def constructor_def)
qed

lemma handler_B1:
  "queues_getHandlerByConsumerTag tag (queuesRoutingTable router_B1) =
     (if tag = ''ct-1'' then Inr pong_handler else Inl HandlerNotFoundError)"
  by (simp add: router_B1_eq queues_getHandlerByConsumerTag_def)

text \<open>
  C3: router "B" routes the request "A.1000000005" of router "A" to its handler, which
  answers "pong". One envelope is sent, to the request's \<open>replyOn\<close>; its \<open>replyTo\<close> is the
  empty string, not the id of the request.
\<close>

theorem response_envelope_has_empty_replyTo:
  "routeMessage accepting_env 2000000000 request_delivery router_B1 =
     (Inr RTrue,
      router_B1\<lparr>trace := trace router_B1 @
        [HandlerApplied 0,
         ConnectorSendMessage (m_replyOn (dl_message request_delivery)) (Wire pong_B) (JNumber 5000)]\<rparr>)
   \<and> m_replyTo pong_B = []
   \<and> m_id (dl_message request_delivery) = ''A.1000000005''"
proof -
  have v: "validateDestination r (Some (m_replyOn ping_A1)) = Inr True" for r
    by (simp add: validateDestination_def ping_A1_def)
  have a: "\<And>d w l. connector_sendMessage accepting_env d w l = None"
    by (simp add: accepting_env_def)
  have t: "defaultTTL router_B1 = 5000"
    by (simp add: router_B1_eq router_B_def constructor_def MS_FACTOR_def)
  have "routeMessage accepting_env 2000000000 request_delivery router_B1 =
          respondToRequest accepting_env 2000000000 (JBuffer ''pong'') (JString ''A.1000000005'')
            (Some (m_replyOn ping_A1)) (log_event (HandlerApplied 0) router_B1)"
    by (simp add: routeMessage_def handler_B1 request_delivery_def pong_handler_def ping_A1_def)
  then show ?thesis
    by (simp add: respondToRequest_def sendMQMsg_def v buildRequest_B1 a Let_def)
      (simp add: log_event_def t request_delivery_def pong_B_def ping_A1_def)
qed

text \<open>
  C5: a delivery tagged "ct-2" reaches router "B", whose table holds "ct-1". \<open>routeMessage\<close>
  fails and the error collector is called once, but the error is the one built from an
  empty argument list: the constructor is given neither name nor source nor the
  HandlerNotFoundError as cause, where the same object passed in an array would have given
  it all three.
\<close>

theorem routing_error_loses_identity_and_cause:
  "routeMessage accepting_env 2000000000 stale_delivery router_B1 =
     (Inl (IError []),
      router_B1\<lparr>trace := trace router_B1 @ [ErrorCollector (IError [])]\<rparr>)
   \<and> Reflect_construct_IError
        (ObjectLiteral (''MQ_ROUTER_ROUTING_ERROR'', ''B.MQRouter.routeMessage'',
                        Some HandlerNotFoundError)) = IError []
   \<and> Reflect_construct_IError
        (ArrayLiteral [(''MQ_ROUTER_ROUTING_ERROR'', ''B.MQRouter.routeMessage'',
                        Some HandlerNotFoundError)]) =
      IError [(''MQ_ROUTER_ROUTING_ERROR'', ''B.MQRouter.routeMessage'', Some HandlerNotFoundError)]"
proof -
  have c: "errorCollector router_B1"
    by (simp add: router_B1_eq router_B_def constructor_def)
  show ?thesis
    by (simp add: routeMessage_def handler_B1 stale_delivery_def request_delivery_def
        Reflect_construct_IError_def emit_error_def c log_event_def Let_def)
qed

section \<open>The router's own handler\<close>

text \<open>
  C6: whatever the envelope, \<open>ownHandler\<close> calls \<open>callById\<close> with the id \<open>undefined\<close>
  and returns; the default handler is not consulted. With the request "A.1000000005"
  pending and the reply to it arriving (\<open>replyTo\<close> = "A.1000000005"), the request is still
  pending afterwards and nothing is settled. Delivered through \<open>routeMessage\<close>, the reply
  ends in a routing error.
\<close>

theorem ownHandler_never_dispatches_on_replyTo:
  "ownHandler ev now message queue topic exchange r =
     (Inr JUndefined,
      r\<lparr>trace := trace r @
           [RequestsCallById JUndefined
              \<lparr>rp_message = m_message message, rp_queue = queue, rp_topic = topic,
               rp_exchange = exchange\<rparr>]\<rparr>)
   \<and> pending (requestsRoutingTable router_A2) ''A.1000000005'' = Some (JNumber 5000)
   \<and> m_replyTo pong_reply = ''A.1000000005''
   \<and> pending (requestsRoutingTable
        (snd (ownHandler ev now pong_reply queue topic exchange router_A2))) ''A.1000000005'' =
      Some (JNumber 5000)
   \<and> settled (requestsRoutingTable
        (snd (ownHandler ev now pong_reply queue topic exchange router_A2))) = []
   \<and> fst (routeMessage ev now reply_delivery router_A2) = Inl (IError [])"
proof -
  have o: "ownHandler ev now message queue topic exchange r =
     (Inr JUndefined,
      r\<lparr>trace := trace r @
           [RequestsCallById JUndefined
              \<lparr>rp_message = m_message message, rp_queue = queue, rp_topic = topic,
               rp_exchange = exchange\<rparr>]\<rparr>)" for message r
    by (simp add: ownHandler_def m_replyId_def property_def requests_callById_def
        requests_settle_def log_event_def Let_def)
  have p: "requestsRoutingTable router_A2 =
             \<lparr>pending = [''A.1000000005'' \<mapsto> JNumber 5000], settled = []\<rparr>"
    by (simp add: router_A2_def sendMQMsg_A1_accepted)
  have q: "queues_getHandlerByConsumerTag ''ct-1'' (queuesRoutingTable router_A2) = Inr OwnHandler"
    by (simp add: router_A2_def sendMQMsg_A1_accepted)
      (simp add: router_A1_def queues_getHandlerByConsumerTag_def)
  have d: "fst (routeMessage ev now reply_delivery router_A2) = Inl (IError [])"
    by (simp add: routeMessage_def reply_delivery_def q Reflect_construct_IError_def Let_def)
  show ?thesis
    by (simp add: o p d pong_reply_def)
qed

section \<open>Validating a destination\<close>

text \<open>
  C7: for the destinations \<open>{queue: ''}\<close> and \<open>{}\<close>, \<open>validateDestination\<close> fails with a
  TypeError, which is not the error named MQ_ROUTER_VALIDATE_DESTINATION.
\<close>

theorem validateDestination_raises_TypeError:
  "validateDestination r (Some \<lparr>d_queue = JString [], d_exchange = ex\<rparr>) = Inl TypeError
   \<and> validateDestination r (Some empty_object) = Inl TypeError
   \<and> Inl TypeError \<noteq>
      (Inl (IError [(''MQ_ROUTER_VALIDATE_DESTINATION'',
                     sourceIdentifier r @ ''.validateDestination'', None)]) :: error + bool)"
  by (simp add: validateDestination_def empty_object_def call_IError_def)

end
